theory Spec2Isabelle
  imports Main "HOL-Library.Multiset"
begin

section \<open>Exceptions\<close>

text \<open>
  The exception classes of \<^verbatim>\<open>useragent.py\<close>, each carrying its message, the
  built-in Python exceptions the modelled code can run into, and the exception that the
  body stream of a response raises when it breaks while it is read.
\<close>

datatype error =
    McUserAgentException string
  | McCrawlerAuthenticatedDomainsException string
  | McGetException string
  | McGetFollowHTTPHTMLRedirectsException string
  | McParallelGetException string
  | McRequestException string
  | ZeroDivisionError
  | ValueError
  | TypeError
  | KeyError
  | IndexError
  | BodyStreamException string

section \<open>UserAgent session state\<close>

text \<open>
  \<^verbatim>\<open>urllib3.Retry(total=..., backoff_factor=..., status_forcelist=...)\<close> as the record of
  the three arguments the code passes.
\<close>

record retry =
  total :: nat
  backoff_factor :: int
  status_forcelist :: "int set"

text \<open>
  The slots of \<^verbatim>\<open>UserAgent\<close>. The \<^verbatim>\<open>requests\<close> session is represented by the two
  parts of it the class touches: \<^verbatim>\<open>max_redirects\<close> and the retry policy of the adapter
  mounted for \<^verbatim>\<open>http://\<close> and \<^verbatim>\<open>https://\<close> (\<open>None\<close> is a plain \<^verbatim>\<open>HTTPAdapter()\<close>,
  which does not retry).
\<close>

record user_agent =
  session_max_redirects :: "int option"
  session_max_retries :: "retry option"
  timeout :: "int option"
  max_size :: "int option"
  timing :: "int list option"

definition DETERMINED_HTTP_CODES :: "int set" where
  "DETERMINED_HTTP_CODES = {408, 500, 502, 503, 504, 429}"

definition DEFAULT_MAX_SIZE :: int where
  "DEFAULT_MAX_SIZE = 10 * 1024 * 1024"

definition DEFAULT_MAX_REDIRECT :: int where
  "DEFAULT_MAX_REDIRECT = 15"

definition DEFAULT_TIMEOUT :: int where
  "DEFAULT_TIMEOUT = 20"

text \<open>
  The argument of \<^verbatim>\<open>set_timing\<close>: \<^verbatim>\<open>None\<close>, a list of integers, or a value of any
  other type.
\<close>

datatype timing_arg = TimingNone | TimingList "int list" | TimingOther

text \<open>
  \<^verbatim>\<open>set_timing\<close>. The call of \<^verbatim>\<open>decode_object_from_bytes_if_needed\<close> turns byte
  strings into strings; it leaves \<^verbatim>\<open>None\<close> and a list of integers as they are and a
  value of another type a value that is not a list, so it does not show in the model. An
  empty list is normalised to \<^verbatim>\<open>None\<close>; the adapter is mounted without retries for
  \<^verbatim>\<open>None\<close> and with a \<^verbatim>\<open>Retry\<close> otherwise.
\<close>

definition set_timing :: "timing_arg \<Rightarrow> user_agent \<Rightarrow> error + user_agent" where
  "set_timing tm ua =
     (case tm of
        TimingOther \<Rightarrow> Inl (McUserAgentException ''Timing must be a list of integer seconds.'')
      | TimingNone \<Rightarrow> Inr (ua\<lparr>timing := None, session_max_retries := None\<rparr>)
      | TimingList ts \<Rightarrow>
          (if length ts = 0 then Inr (ua\<lparr>timing := None, session_max_retries := None\<rparr>)
           else
             let backoff = (if length ts = 1 then ts ! 0 else ts ! 1 - ts ! 0)
             in Inr (ua\<lparr>timing := Some ts,
                        session_max_retries :=
                          Some \<lparr>total = length ts, backoff_factor = backoff,
                                status_forcelist = DETERMINED_HTTP_CODES\<rparr>\<rparr>)))"


definition max_redirect :: "user_agent \<Rightarrow> int option" where
  "max_redirect ua = session_max_redirects ua"

definition set_max_redirect :: "int option \<Rightarrow> user_agent \<Rightarrow> error + user_agent" where
  "set_max_redirect mr ua =
     (case mr of
        None \<Rightarrow> Inr (ua\<lparr>session_max_redirects := None\<rparr>)
      | Some m \<Rightarrow>
          if m < 0 then Inl (McUserAgentException ''Max. redirect count is negative.'')
          else Inr (ua\<lparr>session_max_redirects := Some m\<rparr>))"

definition set_max_size :: "int option \<Rightarrow> user_agent \<Rightarrow> error + user_agent" where
  "set_max_size ms ua =
     (case ms of
        None \<Rightarrow> Inr (ua\<lparr>max_size := None\<rparr>)
      | Some m \<Rightarrow>
          if m \<le> 0 then Inl (McUserAgentException ''Max. size is zero or negative.'')
          else Inr (ua\<lparr>max_size := Some m\<rparr>))"

text \<open>
  The state the constructor leaves: the defaults pass every setter's check, and retries
  are disabled.
\<close>

definition UserAgent :: user_agent where
  "UserAgent =
     \<lparr>session_max_redirects = Some DEFAULT_MAX_REDIRECT, session_max_retries = None,
      timeout = Some DEFAULT_TIMEOUT, max_size = Some DEFAULT_MAX_SIZE, timing = None\<rparr>"

section \<open>Strings\<close>

text \<open>
  Python strings are modelled as \<^typ>\<open>string\<close>. The built-ins used by the code are given
  for ASCII text: \<^verbatim>\<open>str.lower\<close>, \<^verbatim>\<open>urllib.parse.quote\<close> with its default safe set
  (the unreserved characters and the slash are kept, every other character becomes a
  percent sign and two upper-case hexadecimal digits) and the search for a literal
  substring, which is what \<^verbatim>\<open>re.search(re.escape(p), s, re.IGNORECASE)\<close> performs once
  both sides are lower-cased.
\<close>

definition lower_char :: "char \<Rightarrow> char" where
  "lower_char c =
     (case map_of (zip ''ABCDEFGHIJKLMNOPQRSTUVWXYZ'' ''abcdefghijklmnopqrstuvwxyz'') c of
        None \<Rightarrow> c
      | Some l \<Rightarrow> l)"

definition lower :: "string \<Rightarrow> string" where
  "lower s = map lower_char s"

fun contains :: "string \<Rightarrow> string \<Rightarrow> bool" where
  "contains pat [] = (pat = [])"
| "contains pat (c # s) = (take (length pat) (c # s) = pat \<or> contains pat s)"

definition search_escaped_ignorecase :: "string \<Rightarrow> string \<Rightarrow> bool" where
  "search_escaped_ignorecase pat s = contains (lower pat) (lower s)"

definition hex_digit :: "nat \<Rightarrow> char" where
  "hex_digit k = ''0123456789ABCDEF'' ! (k mod 16)"

definition quote_safe :: "char set" where
  "quote_safe =
     set ''ABCDEFGHIJKLMNOPQRSTUVWXYZabcdefghijklmnopqrstuvwxyz0123456789_.-~/''"

definition quote_char :: "char \<Rightarrow> string" where
  "quote_char c =
     (if c \<in> quote_safe then [c]
      else [CHR ''%'', hex_digit ((of_char c :: nat) div 16), hex_digit (of_char c :: nat)])"

definition quote :: "string \<Rightarrow> string" where
  "quote s = concat (map quote_char s)"

section \<open>Request and Response\<close>

text \<open>
  Modelled from the spec: the class \<^verbatim>\<open>Request\<close> (\<^verbatim>\<open>mediawords.util.web.ua.request\<close>) is
  outside the excerpt. Section 3 of the specification gives its fields: method, URL,
  headers, optional body content and an optional user name and password. A field that
  \<^verbatim>\<open>request()\<close> tests against \<^verbatim>\<open>None\<close> is an option.
\<close>

record request =
  request_method :: "string option"
  url :: "string option"
  headers :: "(string \<times> string) list option"
  content :: "string option"
  auth_username :: "string option"
  auth_password :: "string option"

text \<open>
  Modelled from the spec: the constructor call \<^verbatim>\<open>Request(method='GET', url=url)\<close> of
  the missing class, taken to leave the headers empty and the other fields unset.
\<close>

definition Request :: "string \<Rightarrow> string \<Rightarrow> request" where
  "Request m u =
     \<lparr>request_method = Some m, url = Some u, headers = Some [], content = None,
      auth_username = None, auth_password = None\<rparr>"

text \<open>
  Modelled from the spec: the class \<^verbatim>\<open>Response\<close> (\<^verbatim>\<open>mediawords.util.web.ua.response\<close>)
  is outside the excerpt. Section 3 of the specification gives its fields: status code,
  reason, headers, decoded content, the client-side-error flag, the originating request
  and the link \<^verbatim>\<open>previous\<close> to the response before it in the redirect chain.
\<close>

datatype response =
  Response
    (code : int)
    (message : string)
    (response_headers : "(string \<times> string) list")
    (decoded_content : string)
    (error_is_client_side : bool)
    (response_request : request)
    (previous : "response option")

definition set_previous :: "response option \<Rightarrow> response \<Rightarrow> response" where
  "set_previous p r =
     Response (code r) (message r) (response_headers r) (decoded_content r)
       (error_is_client_side r) (response_request r) p"

definition set_request :: "request \<Rightarrow> response \<Rightarrow> response" where
  "set_request q r =
     Response (code r) (message r) (response_headers r) (decoded_content r)
       (error_is_client_side r) q (previous r)"

definition set_error_is_client_side :: "bool \<Rightarrow> response \<Rightarrow> response" where
  "set_error_is_client_side b r =
     Response (code r) (message r) (response_headers r) (decoded_content r)
       b (response_request r) (previous r)"

section \<open>The requests library\<close>

text \<open>
  The objects of the \<^verbatim>\<open>requests\<close> library that \<^verbatim>\<open>request()\<close> handles: the arguments of
  \<^verbatim>\<open>requests.Request\<close>, the prepared request, and \<^verbatim>\<open>requests.Response\<close> with its status,
  reason, headers, request, redirect history and body stream.

  The body stream is what \<^verbatim>\<open>iter_content(chunk_size=None, decode_unicode=True)\<close> does
  step by step: it yields a chunk of decoded text, or a chunk of bytes left undecoded
  (the library passes the bytes on when the response names no encoding), or it raises,
  the string being \<^verbatim>\<open>str(ex)\<close>.
\<close>

datatype body_chunk = Text string | Bytes string | StreamRaises string

text \<open>
  The text chunks a stream starts with, up to its first step that is not text.
\<close>

fun text_prefix :: "body_chunk list \<Rightarrow> string list" where
  "text_prefix [] = []"
| "text_prefix (Text t # cs) = t # text_prefix cs"
| "text_prefix (Bytes b # cs) = []"
| "text_prefix (StreamRaises ex # cs) = []"

record requests_request =
  rq_method :: string
  rq_url :: string
  rq_data :: "string option"
  rq_headers :: "(string \<times> string) list"
  rq_auth :: "(string \<times> string) option"

record prepared_request =
  p_method :: string
  p_url :: string
  p_headers :: "(string \<times> string) list"
  p_body :: "string option"

datatype requests_response =
  RequestsResponse
    (status_code : int)
    (reason : string)
    (rr_headers : "(string \<times> string) list")
    (rr_request : prepared_request)
    (history : "requests_response list")
    (iter_content : "body_chunk list")

text \<open>
  What \<^verbatim>\<open>session.send\<close> does: it returns a response, or raises
  \<^verbatim>\<open>requests.TooManyRedirects\<close> (which carries the last response), \<^verbatim>\<open>requests.Timeout\<close>
  or another exception. The string is \<^verbatim>\<open>str(ex)\<close>.
\<close>

datatype send_result =
    Sent requests_response
  | TooManyRedirects "requests_response option" string
  | Timeout string
  | OtherException string

text \<open>
  Modelled from the spec: \<^verbatim>\<open>Request.from_requests_prepared_request\<close> and
  \<^verbatim>\<open>Response.from_requests_response\<close> of the missing classes. The response takes status,
  reason and headers from the \<^verbatim>\<open>requests\<close> response and the given data as its content
  (the text the body starts with when no data is given); flag, request and \<^verbatim>\<open>previous\<close>
  are set by the caller afterwards.
\<close>

definition from_requests_prepared_request :: "prepared_request \<Rightarrow> request" where
  "from_requests_prepared_request p =
     \<lparr>request_method = Some (p_method p), url = Some (p_url p), headers = Some (p_headers p),
      content = p_body p, auth_username = None, auth_password = None\<rparr>"

definition from_requests_response :: "requests_response \<Rightarrow> string option \<Rightarrow> response" where
  "from_requests_response rr data =
     Response (status_code rr) (reason rr) (rr_headers rr)
       (case data of None \<Rightarrow> concat (text_prefix (iter_content rr)) | Some d \<Rightarrow> d)
       False (from_requests_prepared_request (rr_request rr)) None"

section \<open>Configuration, collaborators and the world\<close>

text \<open>
  The keys of \<^verbatim>\<open>config['mediawords']\<close> that the code reads. A key that may be absent, or
  whose value may be \<^verbatim>\<open>None\<close>, is an option. An entry of
  \<^verbatim>\<open>crawler_authenticated_domains\<close> is a dictionary whose three keys may each be missing.
\<close>

record auth_domain =
  ad_domain :: "string option"
  ad_user :: "string option"
  ad_password :: "string option"

record config =
  blacklist_url_pattern :: "string option"
  crawler_authenticated_domains :: "auth_domain list option"
  web_store_num_parallel :: "int option"
  web_store_timeout :: "int option"
  web_store_per_domain_timeout :: "int option"

text \<open>
  The functions the code calls that live outside the excerpt, as parameters: the URL
  helpers of \<^verbatim>\<open>mediawords.util.url\<close>, \<^verbatim>\<open>decode_object_from_bytes_if_needed\<close> on a
  string (on \<^verbatim>\<open>None\<close> it gives \<^verbatim>\<open>None\<close>, on a list the list of the decoded elements),
  \<^verbatim>\<open>furl\<close> setting a user name and password, \<^verbatim>\<open>re.search\<close>
  with the flags \<^verbatim>\<open>IGNORECASE | UNICODE\<close> for a configured pattern, the list of HTML
  redirect functions, \<^verbatim>\<open>Response.is_success\<close>, \<^verbatim>\<open>sql_now\<close>, and the session of the
  \<^verbatim>\<open>requests\<close> library: \<^verbatim>\<open>prepare_request\<close> (the message of the exception when it
  raises) and \<^verbatim>\<open>send\<close>, whose answer may depend on the requests sent before, on the
  request and on the timeout.
\<close>

record env =
  decode_object_from_bytes_if_needed :: "string \<Rightarrow> string"
  fix_common_url_mistakes :: "string \<Rightarrow> string"
  is_http_url :: "string \<Rightarrow> bool"
  get_url_distinctive_domain :: "string \<Rightarrow> string"
  get_url_host :: "string \<Rightarrow> string"
  get_base_url :: "string option \<Rightarrow> string"
  furl_set_auth :: "string \<Rightarrow> string \<Rightarrow> string \<Rightarrow> string"
  re_search_ignorecase :: "string \<Rightarrow> string \<Rightarrow> bool"
  html_redirect_functions :: "(string \<Rightarrow> string \<Rightarrow> request option) list"
  is_success :: "response \<Rightarrow> bool"
  sql_now :: string
  prepare_request :: "requests_request \<Rightarrow> string + prepared_request"
  send :: "prepared_request list \<Rightarrow> prepared_request \<Rightarrow> int option \<Rightarrow> send_result"

text \<open>
  The mutable world: the \<^verbatim>\<open>Request\<close> objects by address (a \<^verbatim>\<open>Request\<close> is passed by
  reference and \<^verbatim>\<open>set_url\<close> updates it in place), the next free address, the lines of
  \<^verbatim>\<open>http_request.log\<close>, and the requests dispatched to the network so far.
\<close>

record world =
  requests :: "nat \<Rightarrow> request"
  next_ref :: nat
  http_request_log :: "string list"
  dispatched :: "prepared_request list"

definition new_request :: "request \<Rightarrow> world \<Rightarrow> nat \<times> world" where
  "new_request q w =
     (next_ref w, w\<lparr>requests := (requests w)(next_ref w := q), next_ref := Suc (next_ref w)\<rparr>)"

section \<open>The single-request executor\<close>

text \<open>
  \<^verbatim>\<open>__blacklist_request_if_needed\<close>: the request arrives by reference (\<open>None\<close> is Python's
  \<^verbatim>\<open>None\<close>); on a match \<^verbatim>\<open>request.set_url\<close> updates the object in the store, and the
  same reference is returned.
\<close>

definition blacklist_request_if_needed ::
  "env \<Rightarrow> config \<Rightarrow> nat option \<Rightarrow> world \<Rightarrow> (error + nat) \<times> world" where
  "blacklist_request_if_needed e cfg request w =
     (case request of
        None \<Rightarrow> (Inl (McRequestException ''Request is None.''), w)
      | Some r \<Rightarrow>
          (case url (requests w r) of
             None \<Rightarrow> (Inl (McRequestException ''URL is None.''), w)
           | Some u \<Rightarrow>
               if length u = 0 then (Inl (McRequestException ''URL is empty.''), w)
               else
                 (case blacklist_url_pattern cfg of
                    None \<Rightarrow> (Inr r, w)
                  | Some pat \<Rightarrow>
                      if length pat > 0 \<and> re_search_ignorecase e pat u
                      then (Inr r,
                            w\<lparr>requests := (requests w)
                                (r := (requests w r)
                                   \<lparr>url := Some (''http://blacklistedsite.localhost/'' @ u)\<rparr>)\<rparr>)
                      else (Inr r, w))))"

text \<open>
  \<^verbatim>\<open>__log_request\<close>: one line, the time stamp and the URL, is appended to the log. The
  lock on the log file is taken to be granted.
\<close>

definition log_request :: "env \<Rightarrow> nat option \<Rightarrow> world \<Rightarrow> (error + unit) \<times> world" where
  "log_request e request w =
     (case request of
        None \<Rightarrow> (Inl (McRequestException ''Request is None.''), w)
      | Some r \<Rightarrow>
          (case url (requests w r) of
             None \<Rightarrow> (Inl (McRequestException ''URL is None.''), w)
           | Some u \<Rightarrow>
               if length u = 0 then (Inl (McRequestException ''URL is empty.''), w)
               else (Inr (), w\<lparr>http_request_log :=
                                 http_request_log w @ [sql_now e @ '' '' @ u @ [CHR 0x0A]]\<rparr>)))"

text \<open>
  The body loop of \<^verbatim>\<open>request()\<close>, which stands in the \<^verbatim>\<open>else\<close> clause of the
  \<^verbatim>\<open>try\<close> statement, where no handler covers it. Each chunk is appended and counted, and
  the loop breaks after the chunk with which the size exceeds \<^verbatim>\<open>max_size\<close>. Appending a
  chunk of bytes to the string raises a \<^verbatim>\<open>TypeError\<close>, and an exception of the stream
  propagates out of \<^verbatim>\<open>request()\<close>. The result is the data, its size, and what is left unread
  of the stream.
\<close>

fun read_content ::
  "int option \<Rightarrow> body_chunk list \<Rightarrow> string \<Rightarrow> int \<Rightarrow>
   error + string \<times> int \<times> body_chunk list" where
  "read_content ms [] response_data response_data_size =
     Inr (response_data, response_data_size, [])"
| "read_content ms (StreamRaises ex # rest) response_data response_data_size =
     Inl (BodyStreamException ex)"
| "read_content ms (Bytes chunk # rest) response_data response_data_size = Inl TypeError"
| "read_content ms (Text chunk # rest) response_data response_data_size =
     (let response_data' = response_data @ chunk;
          response_data_size' = response_data_size + int (length chunk)
      in case ms of
           None \<Rightarrow> read_content ms rest response_data' response_data_size'
         | Some m \<Rightarrow>
             if response_data_size' > m then Inr (response_data', response_data_size', rest)
             else read_content ms rest response_data' response_data_size')"

text \<open>
  The chain \<^verbatim>\<open>previous\<close> built from \<^verbatim>\<open>reversed(requests_response.history)\<close>: the first
  element of the reversed history becomes \<^verbatim>\<open>previous\<close> of the response, the second
  \<^verbatim>\<open>previous\<close> of the first, and so on.
\<close>

fun previous_chain :: "requests_response list \<Rightarrow> response option" where
  "previous_chain [] = None"
| "previous_chain (previous_rq_response # older) =
     Some (set_previous (previous_chain older)
            (set_request (from_requests_prepared_request (rr_request previous_rq_response))
               (from_requests_response previous_rq_response None)))"

text \<open>
  \<^verbatim>\<open>request()\<close> up to the dispatch: blacklisting, logging, the checks of method, URL,
  headers and credentials, and the preparation of the request by the session. The
  messages of the exceptions are kept without the values formatted into them.
\<close>

definition request_prepare ::
  "env \<Rightarrow> config \<Rightarrow> nat option \<Rightarrow> world \<Rightarrow> (error + prepared_request) \<times> world" where
  "request_prepare e cfg request w =
     (case request of
        None \<Rightarrow> (Inl (McRequestException ''Request is None.''), w)
      | Some _ \<Rightarrow>
     (case blacklist_request_if_needed e cfg request w of
        (Inl err, w1) \<Rightarrow> (Inl err, w1)
      | (Inr r, w1) \<Rightarrow>
     (case log_request e (Some r) w1 of
        (Inl err, w2) \<Rightarrow> (Inl err, w2)
      | (Inr _, w2) \<Rightarrow>
     (let rq = requests w2 r in
      case request_method rq of
        None \<Rightarrow> (Inl (McRequestException ''Request's method is None.''), w2)
      | Some m \<Rightarrow>
     (case url rq of
        None \<Rightarrow> (Inl (McRequestException ''Request's URL is None.''), w2)
      | Some u \<Rightarrow>
     (case headers rq of
        None \<Rightarrow> (Inl (McRequestException ''Request's headers is None.''), w2)
      | Some h \<Rightarrow>
     (if (auth_username rq = None \<and> auth_password rq \<noteq> None) \<or>
         (auth_username rq \<noteq> None \<and> auth_password rq = None)
      then (Inl (McRequestException
              ''Either both or none of HTTP authentication credentials must be not None.''), w2)
      else
     (case (case (auth_username rq, auth_password rq) of
              (Some usr, Some pw) \<Rightarrow>
                if (length usr = 0 \<and> length pw > 0) \<or> (length usr > 0 \<and> length pw = 0)
                then Inl (McRequestException
                  ''Either both or none of HTTP authentication credentials must be not Empty.'')
                else Inr (Some (usr, pw))
            | _ \<Rightarrow> Inr None) of
        Inl err \<Rightarrow> (Inl err, w2)
      | Inr auth \<Rightarrow>
     (case prepare_request e
             \<lparr>rq_method = m, rq_url = u, rq_data = content rq,
              rq_headers = h, rq_auth = auth\<rparr> of
        Inl ex \<Rightarrow> (Inl (McRequestException ''Unable to prepare request''), w2)
      | Inr requests_prepared_request \<Rightarrow> (Inr requests_prepared_request, w2))))))))))"

text \<open>
  \<^verbatim>\<open>request()\<close> from the outcome of \<^verbatim>\<open>session.send\<close> on: the four branches of the
  \<^verbatim>\<open>try\<close> statement give the \<^verbatim>\<open>requests\<close> response, the data and the client-side flag,
  and the common tail builds the \<^verbatim>\<open>Response\<close> with its chain and its request.
\<close>

definition request_finish ::
  "requests_response option \<Rightarrow> string \<Rightarrow> bool \<Rightarrow> error + response" where
  "request_finish rr_opt response_data client_side =
     (case rr_opt of
        None \<Rightarrow> Inl (McRequestException ''Response from 'requests' is None.'')
      | Some rr \<Rightarrow>
          (let response0 = from_requests_response rr (Some response_data);
               response1 = (if client_side
                            then set_error_is_client_side client_side response0
                            else response0);
               response2 = set_previous (previous_chain (rev (history rr))) response1
           in Inr (set_request (from_requests_prepared_request (rr_request rr)) response2)))"

definition request_receive ::
  "user_agent \<Rightarrow> prepared_request \<Rightarrow> send_result \<Rightarrow> error + response" where
  "request_receive ua requests_prepared_request outcome =
     (case outcome of
        TooManyRedirects ex_response ex \<Rightarrow> request_finish ex_response ex False
      | Timeout ex \<Rightarrow>
          request_finish
            (Some (RequestsResponse 408 ''Request Timeout'' [] requests_prepared_request [] []))
            ex True
      | OtherException ex \<Rightarrow>
          request_finish
            (Some (RequestsResponse 400 ''Client-side error''
                     [(''Client-Warning'', ''Client-side error'')]
                     requests_prepared_request [] []))
            ex True
      | Sent rr \<Rightarrow>
          (case read_content (max_size ua) (iter_content rr) [] 0 of
             Inl err \<Rightarrow> Inl err
           | Inr (response_data, response_data_size, rest) \<Rightarrow>
               request_finish (Some rr) response_data False))"

text \<open>
  \<^verbatim>\<open>request()\<close>: the prepared request is dispatched with the timeout of the user agent
  and recorded as dispatched.
\<close>

definition request ::
  "user_agent \<Rightarrow> env \<Rightarrow> config \<Rightarrow> nat option \<Rightarrow> world \<Rightarrow> (error + response) \<times> world" where
  "request ua e cfg rq w =
     (case request_prepare e cfg rq w of
        (Inl err, w') \<Rightarrow> (Inl err, w')
      | (Inr requests_prepared_request, w') \<Rightarrow>
          (request_receive ua requests_prepared_request
             (send e (dispatched w') requests_prepared_request (timeout ua)),
           w'\<lparr>dispatched := dispatched w' @ [requests_prepared_request]\<rparr>))"

section \<open>GET with HTTP authentication\<close>

text \<open>
  \<^verbatim>\<open>__get_domain_http_auth_lookup\<close>: the dictionary from the lower-cased domain to its
  entry; a later entry for the same domain replaces an earlier one.
\<close>

fun auth_lookup_loop ::
  "auth_domain list \<Rightarrow> (string \<rightharpoonup> auth_domain) \<Rightarrow> error + (string \<rightharpoonup> auth_domain)" where
  "auth_lookup_loop [] domain_http_auth_lookup = Inr domain_http_auth_lookup"
| "auth_lookup_loop (d # ds) domain_http_auth_lookup =
     (case ad_domain d of
        None \<Rightarrow> Inl (McCrawlerAuthenticatedDomainsException
                  ''domain is not present in HTTP auth configuration.'')
      | Some name \<Rightarrow>
          if ad_user d = None
          then Inl (McCrawlerAuthenticatedDomainsException
                  ''user is not present in HTTP auth configuration.'')
          else if ad_password d = None
          then Inl (McCrawlerAuthenticatedDomainsException
                  ''password is not present in HTTP auth configuration.'')
          else auth_lookup_loop ds (domain_http_auth_lookup(lower name \<mapsto> d)))"

definition get_domain_http_auth_lookup :: "config \<Rightarrow> error + (string \<rightharpoonup> auth_domain)" where
  "get_domain_http_auth_lookup cfg =
     (case crawler_authenticated_domains cfg of
        None \<Rightarrow> Inr Map.empty
      | Some domains \<Rightarrow> auth_lookup_loop domains Map.empty)"

definition url_with_http_auth :: "env \<Rightarrow> config \<Rightarrow> string \<Rightarrow> error + string" where
  "url_with_http_auth e cfg url0 =
     (let u = decode_object_from_bytes_if_needed e url0 in
      case get_domain_http_auth_lookup cfg of
        Inl err \<Rightarrow> Inl err
      | Inr auth_lookup \<Rightarrow>
          (case auth_lookup (lower (get_url_distinctive_domain e u)) of
             None \<Rightarrow> Inr u
           | Some auth \<Rightarrow>
               (case (ad_user auth, ad_password auth) of
                  (Some usr, Some pw) \<Rightarrow> Inr (furl_set_auth e u usr pw)
                | _ \<Rightarrow> Inl KeyError)))"

definition get ::
  "user_agent \<Rightarrow> env \<Rightarrow> config \<Rightarrow> string option \<Rightarrow> world \<Rightarrow> (error + response) \<times> world" where
  "get ua e cfg url0 w =
     (case map_option (decode_object_from_bytes_if_needed e) url0 of
        None \<Rightarrow> (Inl (McGetException ''URL is None.''), w)
      | Some u0 \<Rightarrow>
          (let u1 = fix_common_url_mistakes e u0 in
           if \<not> is_http_url e u1 then (Inl (McGetException ''URL is not HTTP(s)''), w)
           else
             (case url_with_http_auth e cfg u1 of
                Inl err \<Rightarrow> (Inl err, w)
              | Inr u2 \<Rightarrow>
                  (case new_request (Request ''GET'' u2) w of
                     (r, w1) \<Rightarrow> request ua e cfg (Some r) w1))))"

section \<open>The redirect resolver\<close>

text \<open>
  \<^verbatim>\<open>__inner_redirects_exhausted\<close>. The loop runs \<^verbatim>\<open>max_redirect + 1\<close> times at most; each
  round reads \<^verbatim>\<open>response_.previous()\<close>, where \<^verbatim>\<open>response_\<close> is the argument of the
  function throughout: the loop never assigns to it. \<^verbatim>\<open>quote\<close> of a URL that is
  \<^verbatim>\<open>None\<close> raises a \<^verbatim>\<open>TypeError\<close>.
\<close>

fun redirects_exhausted_loop ::
  "nat \<Rightarrow> response \<Rightarrow> string list \<Rightarrow> error + response option" where
  "redirects_exhausted_loop 0 response0 urls_redirected_to = Inr None"
| "redirects_exhausted_loop (Suc x) response0 urls_redirected_to =
     (case previous response0 of
        None \<Rightarrow> Inr None
      | Some previous0 \<Rightarrow>
          (case url (response_request previous0) of
             None \<Rightarrow> Inl TypeError
           | Some url_redirected_to \<Rightarrow>
               if list_ex (search_escaped_ignorecase (quote url_redirected_to))
                    urls_redirected_to
               then Inr (Some previous0)
               else redirects_exhausted_loop x response0
                      (urls_redirected_to @ [url_redirected_to])))"

definition inner_redirects_exhausted :: "user_agent \<Rightarrow> response \<Rightarrow> error + response option" where
  "inner_redirects_exhausted ua response0 =
     (case max_redirect ua of
        None \<Rightarrow> Inl TypeError
      | Some mr \<Rightarrow> redirects_exhausted_loop (nat (mr + 1)) response0 [])"

text \<open>
  The loop over \<^verbatim>\<open>html_redirect_functions\<close>: the first function that gives a request
  with a URL other than the one of the current response decides.
\<close>

fun find_html_redirect ::
  "(string \<Rightarrow> string \<Rightarrow> request option) list \<Rightarrow> string \<Rightarrow> string \<Rightarrow> string option \<Rightarrow>
   request option" where
  "find_html_redirect [] content0 base_url current_url = None"
| "find_html_redirect (html_redirect_function # fs) content0 base_url current_url =
     (case html_redirect_function content0 base_url of
        None \<Rightarrow> find_html_redirect fs content0 base_url current_url
      | Some request_after_meta_redirect \<Rightarrow>
          if current_url \<noteq> url request_after_meta_redirect
          then Some request_after_meta_redirect
          else find_html_redirect fs content0 base_url current_url)"

text \<open>
  The search for the initial response of the chain of the new response, and the link from
  it to the response redirected from. \<open>find_initial\<close> is the loop after at least one
  round; with no round at all (\<^verbatim>\<open>max_redirect + 1 \<le> 0\<close>) the new response itself is
  linked.
\<close>

fun find_initial :: "nat \<Rightarrow> response \<Rightarrow> response \<Rightarrow> error + response" where
  "find_initial 0 redirect_response response0 =
     Inl (McGetFollowHTTPHTMLRedirectsException ''Can't find the initial redirected response'')"
| "find_initial (Suc x) redirect_response response0 =
     (case previous redirect_response of
        None \<Rightarrow> Inr (set_previous (Some response0) redirect_response)
      | Some previous0 \<Rightarrow>
          (case find_initial x previous0 response0 of
             Inl err \<Rightarrow> Inl err
           | Inr previous1 \<Rightarrow> Inr (set_previous (Some previous1) redirect_response)))"

definition link_to_previous :: "int \<Rightarrow> response \<Rightarrow> response \<Rightarrow> error + response" where
  "link_to_previous mr orig_redirect_response response0 =
     (if mr + 1 \<le> 0 then Inr (set_previous (Some response0) orig_redirect_response)
      else find_initial (nat (mr + 1)) orig_redirect_response response0)"

text \<open>
  \<^verbatim>\<open>__inner\<close> with \<^verbatim>\<open>__inner_follow_redirects\<close>, which it calls while redirects are left
  and which calls it back with one redirect less.
\<close>

function inner ::
  "user_agent \<Rightarrow> env \<Rightarrow> config \<Rightarrow> response \<Rightarrow> int \<Rightarrow> world \<Rightarrow>
   (error + response option) \<times> world" where
  "inner ua e cfg response0 meta_redirects_left w =
     (if meta_redirects_left > 0 then
        (if is_success e response0 then
           (case find_html_redirect (html_redirect_functions e) (decoded_content response0)
                   (get_base_url e (url (response_request response0)))
                   (url (response_request response0)) of
              None \<Rightarrow> (Inr (Some response0), w)
            | Some request_after_meta_redirect \<Rightarrow>
                (case new_request request_after_meta_redirect w of
                   (r, w1) \<Rightarrow>
                (case request ua e cfg (Some r) w1 of
                   (Inl err, w2) \<Rightarrow> (Inl err, w2)
                 | (Inr orig_redirect_response, w2) \<Rightarrow>
                (case max_redirect ua of
                   None \<Rightarrow> (Inl TypeError, w2)
                 | Some mr \<Rightarrow>
                (case link_to_previous mr orig_redirect_response response0 of
                   Inl err \<Rightarrow> (Inl err, w2)
                 | Inr linked \<Rightarrow> inner ua e cfg linked (meta_redirects_left - 1) w2)))))
         else (Inr None, w))
      else (inner_redirects_exhausted ua response0, w))"
  by pat_completeness auto
termination
  by (relation "measure (\<lambda>(ua, e, cfg, response0, meta_redirects_left, w). nat meta_redirects_left)")
    auto

declare inner.simps [simp del]

definition get_follow_http_html_redirects ::
  "user_agent \<Rightarrow> env \<Rightarrow> config \<Rightarrow> string option \<Rightarrow> world \<Rightarrow> (error + response) \<times> world" where
  "get_follow_http_html_redirects ua e cfg url0 w =
     (case map_option (decode_object_from_bytes_if_needed e) url0 of
        None \<Rightarrow> (Inl (McGetFollowHTTPHTMLRedirectsException ''URL is None.''), w)
      | Some u0 \<Rightarrow>
          (let u1 = fix_common_url_mistakes e u0 in
           if \<not> is_http_url e u1
           then (Inl (McGetFollowHTTPHTMLRedirectsException ''URL is not HTTP(s)''), w)
           else if max_redirect ua = Some 0
           then (Inl (McGetFollowHTTPHTMLRedirectsException
                   ''User agent's max_redirect is 0, subroutine might loop indefinitely.''), w)
           else
             (case get ua e cfg (Some u1) w of
                (Inl err, w1) \<Rightarrow> (Inl err, w1)
              | (Inr response0, w1) \<Rightarrow>
                  (case max_redirect ua of
                     None \<Rightarrow> (Inl TypeError, w1)
                   | Some mr \<Rightarrow>
                       (case inner ua e cfg response0 mr w1 of
                          (Inl err, w2) \<Rightarrow> (Inl err, w2)
                        | (Inr None, w2) \<Rightarrow> (Inr response0, w2)
                        | (Inr (Some response_after_redirects), w2) \<Rightarrow>
                            (Inr response_after_redirects, w2))))))"

section \<open>The parallel fetch scheduler\<close>

text \<open>
  \<^verbatim>\<open>_ParallelGetScheduledURL\<close>: a URL and its offset from the start of the batch.
\<close>

record scheduled_url =
  sched_url :: string
  sched_time :: int

text \<open>
  Python's list indexing (a negative index counts from the end), \<^verbatim>\<open>str.split('.')\<close> and
  \<^verbatim>\<open>'.'.join\<close>.
\<close>

definition py_nth :: "'a list \<Rightarrow> int \<Rightarrow> error + 'a" where
  "py_nth name_parts i =
     (if 0 \<le> i \<and> i < int (length name_parts) then Inr (name_parts ! nat i)
      else if - int (length name_parts) \<le> i \<and> i < 0
      then Inr (name_parts ! nat (int (length name_parts) + i))
      else Inl IndexError)"

fun split_dot :: "string \<Rightarrow> string list" where
  "split_dot [] = [[]]"
| "split_dot (c # s) =
     (if c = CHR ''.'' then [] # split_dot s
      else (case split_dot s of [] \<Rightarrow> [[c]] | part # parts \<Rightarrow> (c # part) # parts))"

fun join_dot :: "string list \<Rightarrow> string" where
  "join_dot [] = []"
| "join_dot [part] = part"
| "join_dot (part # parts) = part @ ''.'' @ join_dot parts"

text \<open>
  The two patterns of \<^verbatim>\<open>__get_url_domain\<close>. The first is a dot and two characters other
  than a line feed at the end of the host, or before a line feed that ends it; the second
  is one of three literal substrings.
\<close>

definition country_domain :: "string \<Rightarrow> bool" where
  "country_domain host =
     (let n = length host; nl = CHR 0x0A in
      (3 \<le> n \<and> host ! (n - 3) = CHR ''.'' \<and> host ! (n - 2) \<noteq> nl \<and> host ! (n - 1) \<noteq> nl) \<or>
      (4 \<le> n \<and> host ! (n - 4) = CHR ''.'' \<and> host ! (n - 3) \<noteq> nl \<and> host ! (n - 2) \<noteq> nl \<and>
       host ! (n - 1) = nl))"

definition multi_tenant_host :: "string \<Rightarrow> bool" where
  "multi_tenant_host host =
     (contains ''localhost'' host \<or> contains ''blogspot.com'' host \<or>
      contains ''wordpress.com'' host)"

definition get_url_domain :: "env \<Rightarrow> string \<Rightarrow> error + string" where
  "get_url_domain e u =
     (if \<not> is_http_url e u then Inr u
      else
        let host = get_url_host e u;
            name_parts = split_dot host;
            n = int (length name_parts) - 1
        in if country_domain host then
             (case (py_nth name_parts (n - 2), py_nth name_parts (n - 1), py_nth name_parts 0) of
                (Inr a, Inr b, Inr c) \<Rightarrow> Inr (lower (join_dot [a, b, c]))
              | _ \<Rightarrow> Inl IndexError)
           else if multi_tenant_host host then Inr (lower u)
           else
             (case (py_nth name_parts (n - 1), py_nth name_parts n) of
                (Inr a, Inr b) \<Rightarrow> Inr (lower (join_dot [a, b]))
              | _ \<Rightarrow> Inl IndexError))"

text \<open>
  A dictionary of lists in insertion order, and the step
  \<^verbatim>\<open>if k not in d: d[k] = []\<close> followed by \<^verbatim>\<open>d[k].append(v)\<close>.
\<close>

fun dict_append :: "'k \<Rightarrow> 'v \<Rightarrow> ('k \<times> 'v list) list \<Rightarrow> ('k \<times> 'v list) list" where
  "dict_append k v [] = [(k, [v])]"
| "dict_append k v ((k', vs) # d) =
     (if k' = k then (k', vs @ [v]) # d else (k', vs) # dict_append k v d)"

text \<open>
  \<^verbatim>\<open>__get_scheduled_urls\<close>: the URLs are put into buckets by domain, each bucket is
  scheduled from offset 0 on, the offset advancing by the timeout after a URL whose own
  offset is divisible by 5, and the whole is sorted by offset (\<^verbatim>\<open>sorted\<close> is stable, as
  \<^const>\<open>sort_key\<close> is).
\<close>

fun domain_urls_loop ::
  "env \<Rightarrow> string list \<Rightarrow> (string \<times> string list) list \<Rightarrow>
   error + (string \<times> string list) list" where
  "domain_urls_loop e [] domain_urls = Inr domain_urls"
| "domain_urls_loop e (u # us) domain_urls =
     (case get_url_domain e u of
        Inl err \<Rightarrow> Inl err
      | Inr domain0 \<Rightarrow> domain_urls_loop e us (dict_append domain0 u domain_urls))"

fun schedule_domain :: "int \<Rightarrow> string list \<Rightarrow> int \<Rightarrow> scheduled_url list" where
  "schedule_domain per_domain_timeout [] time0 = []"
| "schedule_domain per_domain_timeout (domain_url # urls_in_domain) time0 =
     \<lparr>sched_url = domain_url, sched_time = time0\<rparr> #
     schedule_domain per_domain_timeout urls_in_domain
       (if time0 mod 5 = 0 then time0 + per_domain_timeout else time0)"

definition get_scheduled_urls :: "env \<Rightarrow> string list \<Rightarrow> int \<Rightarrow> error + scheduled_url list" where
  "get_scheduled_urls e urls0 per_domain_timeout =
     (case domain_urls_loop e urls0 [] of
        Inl err \<Rightarrow> Inl err
      | Inr domain_urls \<Rightarrow>
          Inr (sort_key sched_time
                 (concat (map (\<lambda>(domain0, urls_in_domain).
                                  schedule_domain per_domain_timeout urls_in_domain 0)
                            domain_urls))))"

text \<open>
  The partition into blocks: while the stack is not empty, its last element is popped
  and appended to the block numbered by the length of the stack before the pop, modulo
  \<^verbatim>\<open>num_parallel\<close>. The remainder by zero raises.
\<close>

function url_blocks_loop ::
  "int \<Rightarrow> 'a list \<Rightarrow> (int \<times> 'a list) list \<Rightarrow> error + (int \<times> 'a list) list" where
  "url_blocks_loop num_parallel url_stack url_blocks =
     (if length url_stack > 0 then
        (if num_parallel = 0 then Inl ZeroDivisionError
         else url_blocks_loop num_parallel (butlast url_stack)
                (dict_append (int (length url_stack) mod num_parallel) (last url_stack)
                   url_blocks))
      else Inr url_blocks)"
  by pat_completeness auto
termination
  by (relation "measure (\<lambda>(num_parallel, url_stack, url_blocks). length url_stack)") auto

declare url_blocks_loop.simps [simp del]




section \<open>Descriptions to compare the code with\<close>

text \<open>
  The blocks after the pops at the positions \<open>is\<close> of the stack, in that order: the
  element at position \<open>i\<close> is popped when the stack has \<open>i + 1\<close> elements, and goes to
  the block numbered \<open>(i + 1) mod num_parallel\<close>.
\<close>

definition block_steps ::
  "int \<Rightarrow> 'a list \<Rightarrow> nat list \<Rightarrow> (int \<times> 'a list) list \<Rightarrow> (int \<times> 'a list) list" where
  "block_steps num_parallel url_stack is url_blocks =
     foldl (\<lambda>d i. dict_append (int (Suc i) mod num_parallel) (url_stack ! i) d) url_blocks is"

text \<open>
  The schedule of one bucket in the words of the specification, section 4.3 step 3: the
  offset advances after every URL whose index in the bucket is divisible by 5.
\<close>

fun schedule_domain_by_index :: "int \<Rightarrow> string list \<Rightarrow> nat \<Rightarrow> int \<Rightarrow> scheduled_url list" where
  "schedule_domain_by_index per_domain_timeout [] index time0 = []"
| "schedule_domain_by_index per_domain_timeout (domain_url # urls_in_domain) index time0 =
     \<lparr>sched_url = domain_url, sched_time = time0\<rparr> #
     schedule_domain_by_index per_domain_timeout urls_in_domain (Suc index)
       (if index mod 5 = 0 then time0 + per_domain_timeout else time0)"

text \<open>
  The walk over the chain in the words of the specification, section 4.2 step 4: each
  prior hop in turn, from the end of the chain, is compared with the URLs of the hops
  scanned before it.
\<close>

fun paywall_unwrap_walk :: "nat \<Rightarrow> response \<Rightarrow> string list \<Rightarrow> error + response option" where
  "paywall_unwrap_walk 0 response0 urls_redirected_to = Inr None"
| "paywall_unwrap_walk (Suc x) response0 urls_redirected_to =
     (case previous response0 of
        None \<Rightarrow> Inr None
      | Some previous0 \<Rightarrow>
          (case url (response_request previous0) of
             None \<Rightarrow> Inl TypeError
           | Some url_redirected_to \<Rightarrow>
               if list_ex (search_escaped_ignorecase (quote url_redirected_to))
                    urls_redirected_to
               then Inr (Some previous0)
               else paywall_unwrap_walk x previous0
                      (urls_redirected_to @ [url_redirected_to])))"

section \<open>Example inputs\<close>

text \<open>
  A small environment for evaluating the model at concrete inputs: the helpers leave
  strings as they are, a URL is HTTP when it starts with the scheme, the host is what
  stands between the scheme and the next slash, a pattern is searched as a literal
  substring ignoring case, there are no HTML redirect functions, a response succeeds with
  a status from 200 to 299, and every dispatch times out.
\<close>

definition example_env :: env where
  "example_env =
     \<lparr>decode_object_from_bytes_if_needed = (\<lambda>s. s),
      fix_common_url_mistakes = (\<lambda>s. s),
      is_http_url = (\<lambda>s. take 7 s = ''http://'' \<or> take 8 s = ''https://''),
      get_url_distinctive_domain = (\<lambda>s. takeWhile (\<lambda>c. c \<noteq> CHR ''/'') (drop 7 s)),
      get_url_host = (\<lambda>s. takeWhile (\<lambda>c. c \<noteq> CHR ''/'') (drop 7 s)),
      get_base_url = (\<lambda>u. case u of None \<Rightarrow> [] | Some s \<Rightarrow> s),
      furl_set_auth = (\<lambda>u usr pw. u),
      re_search_ignorecase = (\<lambda>pat s. contains (lower pat) (lower s)),
      html_redirect_functions = [],
      is_success = (\<lambda>r. 200 \<le> code r \<and> code r < 300),
      sql_now = ''2019-01-01 00:00:00'',
      prepare_request =
        (\<lambda>rq. Inr \<lparr>p_method = rq_method rq, p_url = rq_url rq, p_headers = rq_headers rq,
                    p_body = rq_data rq\<rparr>),
      send = (\<lambda>sent p t. Timeout ''timed out'')\<rparr>"

text \<open>
  An environment in which \<^verbatim>\<open>http://a.example/\<close> is redirected by HTTP to a URL that
  embeds it, encoded, and the page there carries one HTML redirect to a third URL.
\<close>

definition paywall_env :: env where
  "paywall_env =
     example_env
       \<lparr>html_redirect_functions :=
          [\<lambda>content0 base_url.
             if content0 = ''refresh'' then Some (Request ''GET'' ''http://next.example/'')
             else None],
        send :=
          (\<lambda>sent p t.
             if p_url p = ''http://a.example/''
             then Sent (RequestsResponse 200 ''OK'' []
                          (p\<lparr>p_url := ''http://pay.example/?u=http%3A//a.example/''\<rparr>)
                          [RequestsResponse 302 ''Found'' [] p [] []]
                          [Text ''refresh''])
             else Sent (RequestsResponse 200 ''OK'' [] p [] [Text ''done'']))\<rparr>"

definition example_config :: config where
  "example_config =
     \<lparr>blacklist_url_pattern = None, crawler_authenticated_domains = None,
      web_store_num_parallel = Some 2, web_store_timeout = Some 20,
      web_store_per_domain_timeout = Some 5\<rparr>"

definition example_world :: world where
  "example_world =
     \<lparr>requests = (\<lambda>r. Request ''GET'' ''http://a.example/''), next_ref = 1,
      http_request_log = [], dispatched = []\<rparr>"

section \<open>Retry timing\<close>

text \<open>
  C3. A non-empty timing list given to \<^verbatim>\<open>set_timing\<close> mounts a retry policy whose forced
  status codes are exactly 408, 500, 502, 503, 504 and 429, whose total is the length of
  the list, and whose backoff factor is the only element of a one-element list and the
  second element minus the first of a longer one; the call does not raise and stores the
  list. A timing of \<^verbatim>\<open>None\<close> mounts an adapter without retries.
\<close>

theorem set_timing_retry_policy:
  "set_timing (TimingList (t # ts)) ua =
     Inr (ua\<lparr>timing := Some (t # ts),
              session_max_retries :=
                Some \<lparr>total = length (t # ts),
                      backoff_factor = (case ts of [] \<Rightarrow> t | t2 # rest \<Rightarrow> t2 - t),
                      status_forcelist = {408, 500, 502, 503, 504, 429}\<rparr>\<rparr>) \<and>
   set_timing TimingNone ua = Inr (ua\<lparr>timing := None, session_max_retries := None\<rparr>)"
  by (simp add: set_timing_def DETERMINED_HTTP_CODES_def split: list.split)

text \<open>
  C10. \<^verbatim>\<open>set_timing\<close> with an empty list does not raise: the timing becomes \<^verbatim>\<open>None\<close>
  and the adapter is mounted without retries, the same state as after
  \<^verbatim>\<open>set_timing(None)\<close>. The call raises exactly for an argument that is neither \<^verbatim>\<open>None\<close>
  nor a list.
\<close>

theorem set_timing_empty_list:
  "set_timing (TimingList []) ua = Inr (ua\<lparr>timing := None, session_max_retries := None\<rparr>) \<and>
   set_timing (TimingList []) ua = set_timing TimingNone ua \<and>
   ((\<exists>err. set_timing tm ua = Inl err) \<longleftrightarrow> tm = TimingOther)"
  by (cases tm) (auto simp add: set_timing_def Let_def)

section \<open>Redirect resolution with no redirects allowed\<close>

text \<open>
  C7. With \<^verbatim>\<open>max_redirect\<close> set to 0, \<^verbatim>\<open>get_follow_http_html_redirects\<close> raises
  \<^verbatim>\<open>McGetFollowHTTPHTMLRedirectsException\<close> for every URL argument and leaves the world
  as it was: nothing is dispatched, logged or allocated. For a URL that passes the check
  for HTTP the exception is the one about \<^verbatim>\<open>max_redirect\<close>; a missing URL and a URL
  that is not HTTP raise the same class from the two checks before.
\<close>

theorem max_redirect_zero_raises:
  "max_redirect ua = Some 0 \<Longrightarrow>
   (\<exists>msg. get_follow_http_html_redirects ua e cfg url0 w =
            (Inl (McGetFollowHTTPHTMLRedirectsException msg), w)) \<and>
   (\<forall>u. url0 = Some u \<and>
        is_http_url e (fix_common_url_mistakes e (decode_object_from_bytes_if_needed e u)) \<longrightarrow>
        get_follow_http_html_redirects ua e cfg url0 w =
          (Inl (McGetFollowHTTPHTMLRedirectsException
             ''User agent's max_redirect is 0, subroutine might loop indefinitely.''), w))"
  by (cases url0) (auto simp add: get_follow_http_html_redirects_def Let_def)

theorem max_redirect_zero_raises_witness:
  "max_redirect (UserAgent\<lparr>session_max_redirects := Some 0\<rparr>) = Some 0 \<and>
   get_follow_http_html_redirects (UserAgent\<lparr>session_max_redirects := Some 0\<rparr>)
       example_env example_config (Some ''http://a.example/'') example_world =
     (Inl (McGetFollowHTTPHTMLRedirectsException
        ''User agent's max_redirect is 0, subroutine might loop indefinitely.''),
      example_world)"
proof -
  have zero: "max_redirect (UserAgent\<lparr>session_max_redirects := Some 0\<rparr>) = Some 0"
    by (simp add: max_redirect_def)
  from max_redirect_zero_raises [OF zero, of example_env example_config
      "Some ''http://a.example/''" example_world]
  show ?thesis using zero by (simp add: example_env_def)
qed

section \<open>Transport faults\<close>

lemma example_request_prepare:
  "request_prepare (example_env\<lparr>send := s\<rparr>) example_config (Some 0) example_world =
     (Inr \<lparr>p_method = ''GET'', p_url = ''http://a.example/'', p_headers = [], p_body = None\<rparr>,
      example_world\<lparr>http_request_log := [''2019-01-01 00:00:00 http://a.example/'' @ [CHR 0x0A]]\<rparr>)"
  by (simp add: request_prepare_def blacklist_request_if_needed_def log_request_def
      example_env_def example_config_def example_world_def Request_def Let_def)

text \<open>
  C4. When \<^verbatim>\<open>request()\<close> has reached the dispatch and \<^verbatim>\<open>session.send\<close> raises, it
  returns a response and does not raise. On a timeout the response has status 408 and is
  marked as a client-side error; on any other exception it has status 400, the reason
  ``Client-side error'', the header \<^verbatim>\<open>Client-Warning\<close> and the same mark. In both cases
  \<^verbatim>\<open>previous\<close> is unset, the content is the text of the exception, and the request is
  the one that was prepared.
\<close>

theorem transport_fault_response:
  assumes "request_prepare e cfg rq w = (Inr p, w')"
  shows "(send e (dispatched w') p (timeout ua) = Timeout ex \<longrightarrow>
            request ua e cfg rq w =
              (Inr (Response 408 ''Request Timeout'' [] ex True
                      (from_requests_prepared_request p) None),
               w'\<lparr>dispatched := dispatched w' @ [p]\<rparr>)) \<and>
         (send e (dispatched w') p (timeout ua) = OtherException ex \<longrightarrow>
            request ua e cfg rq w =
              (Inr (Response 400 ''Client-side error''
                      [(''Client-Warning'', ''Client-side error'')] ex True
                      (from_requests_prepared_request p) None),
               w'\<lparr>dispatched := dispatched w' @ [p]\<rparr>))"
  using assms
  by (simp add: request_def request_receive_def request_finish_def from_requests_response_def
      set_error_is_client_side_def set_previous_def set_request_def Let_def)

theorem transport_fault_response_witness:
  "request UserAgent (example_env\<lparr>send := \<lambda>sent p t. Timeout ''timed out''\<rparr>)
       example_config (Some 0) example_world =
     (Inr (Response 408 ''Request Timeout'' [] ''timed out'' True
             (Request ''GET'' ''http://a.example/'') None),
      example_world
        \<lparr>http_request_log := [''2019-01-01 00:00:00 http://a.example/'' @ [CHR 0x0A]],
         dispatched := [\<lparr>p_method = ''GET'', p_url = ''http://a.example/'', p_headers = [],
                         p_body = None\<rparr>]\<rparr>) \<and>
   request UserAgent (example_env\<lparr>send := \<lambda>sent p t. OtherException ''refused''\<rparr>)
       example_config (Some 0) example_world =
     (Inr (Response 400 ''Client-side error'' [(''Client-Warning'', ''Client-side error'')]
             ''refused'' True (Request ''GET'' ''http://a.example/'') None),
      example_world
        \<lparr>http_request_log := [''2019-01-01 00:00:00 http://a.example/'' @ [CHR 0x0A]],
         dispatched := [\<lparr>p_method = ''GET'', p_url = ''http://a.example/'', p_headers = [],
                         p_body = None\<rparr>]\<rparr>)"
  using
    transport_fault_response [OF example_request_prepare,
      of "\<lambda>sent p t. Timeout ''timed out''" UserAgent "''timed out''"]
    transport_fault_response [OF example_request_prepare,
      of "\<lambda>sent p t. OtherException ''refused''" UserAgent "''refused''"]
  by (simp add: from_requests_prepared_request_def Request_def example_world_def)

section \<open>Blacklisted URLs\<close>

text \<open>
  C8, as the code has it. For a request with a non-empty URL, \<^verbatim>\<open>__blacklist_request_if_needed\<close>
  returns the reference it was given. When the configured pattern is not empty and
  matches the URL, the object at that reference has its URL replaced by
  \<^verbatim>\<open>http://blacklistedsite.localhost/\<close> followed by the original URL, in place: no new
  request is made, every other object and the rest of the world stay as they were. When
  there is no pattern, or it is empty or does not match, the world is unchanged.
\<close>

theorem blacklist_in_place:
  assumes "url (requests w r) = Some u" and "u \<noteq> []"
  shows "blacklist_request_if_needed e cfg (Some r) w =
           (if (\<exists>pat. blacklist_url_pattern cfg = Some pat \<and> pat \<noteq> [] \<and>
                      re_search_ignorecase e pat u)
            then (Inr r, w\<lparr>requests := (requests w)
                    (r := (requests w r)\<lparr>url := Some (''http://blacklistedsite.localhost/'' @ u)\<rparr>)\<rparr>)
            else (Inr r, w))"
  using assms
  by (auto simp add: blacklist_request_if_needed_def split: option.splits)

theorem blacklist_in_place_witness:
  "url (requests example_world 0) = Some ''http://a.example/'' \<and>
   blacklist_request_if_needed example_env
       (example_config\<lparr>blacklist_url_pattern := Some ''A.Example''\<rparr>) (Some 0) example_world =
     (Inr 0, example_world\<lparr>requests := (requests example_world)
        (0 := Request ''GET'' ''http://blacklistedsite.localhost/http://a.example/'')\<rparr>) \<and>
   blacklist_request_if_needed example_env
       (example_config\<lparr>blacklist_url_pattern := Some ''b.example''\<rparr>) (Some 0) example_world =
     (Inr 0, example_world)"
proof -
  have u: "url (requests example_world 0) = Some ''http://a.example/''"
    by (simp add: example_world_def Request_def)
  have ne: "''http://a.example/'' \<noteq> []" by simp
  show ?thesis
    using u blacklist_in_place [OF u ne, of example_env "example_config\<lparr>blacklist_url_pattern := Some ''A.Example''\<rparr>"]
      blacklist_in_place [OF u ne, of example_env "example_config\<lparr>blacklist_url_pattern := Some ''b.example''\<rparr>"]
    by (simp add: example_env_def example_world_def Request_def lower_def lower_char_def)
qed

text \<open>
  C8 as stated fails: the request handed over, at address 0, is returned itself and no
  longer is what it was before the call.
\<close>

theorem blacklist_derived_request_counterexample:
  "fst (blacklist_request_if_needed example_env
          (example_config\<lparr>blacklist_url_pattern := Some ''A.Example''\<rparr>) (Some 0)
          example_world) = Inr 0 \<and>
   requests (snd (blacklist_request_if_needed example_env
          (example_config\<lparr>blacklist_url_pattern := Some ''A.Example''\<rparr>) (Some 0)
          example_world)) 0 \<noteq> requests example_world 0"
  by (simp add: blacklist_request_if_needed_def example_env_def example_world_def Request_def
      lower_def lower_char_def)

section \<open>The size cap on the body\<close>




lemma read_content_reaches:
  assumes "\<forall>m. ms = Some m \<longrightarrow>
             (\<forall>j. 0 < j \<and> j \<le> length ts \<longrightarrow> sz + int (length (concat (take j ts))) \<le> m)"
  shows "read_content ms (map Text ts @ cs) d sz =
         read_content ms cs (d @ concat ts) (sz + int (length (concat ts)))"
  using assms
proof (induction ts arbitrary: d sz)
  case Nil
  show ?case by simp
next
  case (Cons t ts)
  have first: "sz + int (length t) \<le> m" if "ms = Some m" for m
  proof -
    from Cons.prems that have "sz + int (length (concat (take (Suc 0) (t # ts)))) \<le> m"
      by (simp del: take_Suc_Cons)
    then show ?thesis by simp
  qed
  have later: "\<forall>m. ms = Some m \<longrightarrow>
             (\<forall>j. 0 < j \<and> j \<le> length ts \<longrightarrow>
                (sz + int (length t)) + int (length (concat (take j ts))) \<le> m)"
  proof (intro allI impI)
    fix m j
    assume m: "ms = Some m" and j: "0 < j \<and> j \<le> length ts"
    with Cons.prems have "sz + int (length (concat (take (Suc j) (t # ts)))) \<le> m"
      by (simp del: take_Suc_Cons)
    then show "(sz + int (length t)) + int (length (concat (take j ts))) \<le> m"
      by (simp add: algebra_simps)
  qed
  from Cons.IH [OF later, of "d @ t"] first show ?case
    by (cases ms) (simp_all add: Let_def algebra_simps)
qed

text \<open>
  When the text chunks at the start of the stream stay within \<^verbatim>\<open>max_size\<close>, the loop
  reaches the step after them: a chunk of bytes there raises a \<^verbatim>\<open>TypeError\<close>, and an
  exception of the stream goes on out of the loop.
\<close>

lemma read_content_not_text:
  assumes "\<forall>m. ms = Some m \<longrightarrow>
             (\<forall>j. 0 < j \<and> j \<le> length ts \<longrightarrow> int (length (concat (take j ts))) \<le> m)"
  shows "read_content ms (map Text ts @ Bytes b # rest) [] 0 = Inl TypeError \<and>
         read_content ms (map Text ts @ StreamRaises ex # rest) [] 0 =
           Inl (BodyStreamException ex)"
proof -
  from assms have "\<forall>m. ms = Some m \<longrightarrow>
             (\<forall>j. 0 < j \<and> j \<le> length ts \<longrightarrow> 0 + int (length (concat (take j ts))) \<le> m)"
    by simp
  from read_content_reaches [OF this] show ?thesis by simp
qed




section \<open>The partition into worker blocks\<close>

lemma map_of_dict_append:
  "map_of (dict_append k v d) =
     (map_of d)(k \<mapsto> (case map_of d k of None \<Rightarrow> [v] | Some vs \<Rightarrow> vs @ [v]))"
  by (induction d) (auto simp add: fun_eq_iff)

lemma keys_dict_append: "fst ` set (dict_append k v d) = insert k (fst ` set d)"
proof (induction d)
  case Nil
  show ?case by simp
next
  case (Cons b d)
  obtain k' vs where b: "b = (k', vs)" by (cases b)
  show ?case
  proof (cases "k' = k")
    case True
    with b show ?thesis by auto
  next
    case False
    with b Cons show ?thesis by auto
  qed
qed

lemma distinct_dict_append:
  "distinct (map fst d) \<Longrightarrow> distinct (map fst (dict_append k v d))"
proof (induction d)
  case Nil
  show ?case by simp
next
  case (Cons b d)
  obtain k' vs where b: "b = (k', vs)" by (cases b)
  with Cons keys_dict_append [of k v d] show ?case by (cases "k' = k") auto
qed


lemma dict_append_no_empty_list:
  "[] \<notin> snd ` set d \<Longrightarrow> [] \<notin> snd ` set (dict_append k v d)"
proof (induction d)
  case Nil
  show ?case by simp
next
  case (Cons b d)
  obtain k' vs where b: "b = (k', vs)" by (cases b)
  with Cons show ?case by (cases "k' = k") auto
qed

lemma block_steps_cong:
  "(\<And>i. i \<in> set is \<Longrightarrow> s ! i = t ! i) \<Longrightarrow> block_steps np s is acc = block_steps np t is acc"
  unfolding block_steps_def by (induction "is" arbitrary: acc) simp_all

lemma url_blocks_loop_steps:
  "np \<noteq> 0 \<Longrightarrow>
   url_blocks_loop np stack acc = Inr (block_steps np stack (rev [0..<length stack]) acc)"
proof (induction stack arbitrary: acc rule: rev_induct)
  case Nil
  show ?case by (subst url_blocks_loop.simps) (simp add: block_steps_def)
next
  case (snoc x xs)
  have same: "block_steps np (xs @ [x]) (rev [0..<length xs]) a =
              block_steps np xs (rev [0..<length xs]) a" for a
    by (rule block_steps_cong) (simp add: nth_append)
  have "url_blocks_loop np (xs @ [x]) acc =
        url_blocks_loop np xs (dict_append (int (Suc (length xs)) mod np) x acc)"
    using snoc.prems by (subst url_blocks_loop.simps) simp
  also have "\<dots> = Inr (block_steps np xs (rev [0..<length xs])
                       (dict_append (int (Suc (length xs)) mod np) x acc))"
    using snoc by simp
  also have "\<dots> = Inr (block_steps np (xs @ [x]) (rev [0..<length (xs @ [x])]) acc)"
    using same by (simp add: block_steps_def)
  finally show ?case .
qed

lemma map_of_block_steps:
  "map_of (block_steps np stack is acc) k =
     (let b = map (\<lambda>i. stack ! i) (filter (\<lambda>i. int (Suc i) mod np = k) is)
      in case map_of acc k of
           None \<Rightarrow> (if b = [] then None else Some b)
         | Some vs \<Rightarrow> Some (vs @ b))"
  unfolding block_steps_def
  by (induction "is" arbitrary: acc) (auto simp add: map_of_dict_append Let_def split: option.splits)

lemma distinct_block_steps:
  "distinct (map fst acc) \<Longrightarrow> distinct (map fst (block_steps np stack is acc))"
  unfolding block_steps_def
  by (induction "is" arbitrary: acc) (simp_all add: distinct_dict_append)




lemma ex_blocks:
  "url_blocks_loop 2 [''a'', ''b'', ''c'', ''d'', ''e''] [] =
     Inr [(1, [''e'', ''c'', ''a'']), (0, [''d'', ''b''])]"
  by code_simp

text \<open>
  C5. With \<^verbatim>\<open>num_parallel\<close> other than 0 the partition loop returns, and the block with
  number \<open>k\<close> holds exactly the elements of the stack at the positions \<open>i\<close> with
  \<open>(i + 1) mod num_parallel = k\<close>, from the last position down to the first: each element
  is popped from the end, goes to the block numbered by the length of the stack before
  its pop modulo \<^verbatim>\<open>num_parallel\<close>, and stands in its block in the order of the pops. A
  block that receives no element does not exist, and no block number occurs twice.
\<close>

theorem url_blocks_reverse_round_robin:
  assumes "num_parallel \<noteq> 0"
  shows "\<exists>url_blocks.
           url_blocks_loop num_parallel url_stack [] = Inr url_blocks \<and>
           distinct (map fst url_blocks) \<and>
           (\<forall>k. map_of url_blocks k =
                  (let block = map (\<lambda>i. url_stack ! i)
                                 (filter (\<lambda>i. int (Suc i) mod num_parallel = k)
                                    (rev [0..<length url_stack]))
                   in if block = [] then None else Some block))"
  using assms
  by (simp add: url_blocks_loop_steps map_of_block_steps distinct_block_steps Let_def)

theorem url_blocks_reverse_round_robin_witness:
  "(2 :: int) \<noteq> 0 \<and>
   url_blocks_loop 2 [''a'', ''b'', ''c'', ''d'', ''e''] [] =
     Inr [(1, [''e'', ''c'', ''a'']), (0, [''d'', ''b''])] \<and>
   map_of [(1 :: int, [''e'', ''c'', ''a'']), (0, [''d'', ''b''])] 1 =
     Some (map (\<lambda>i. [''a'', ''b'', ''c'', ''d'', ''e''] ! i)
            (filter (\<lambda>i. int (Suc i) mod 2 = 1) (rev [0..<5])))"
proof -
  have two: "(2 :: int) \<noteq> 0" by simp
  from url_blocks_reverse_round_robin [OF two, of "[''a'', ''b'', ''c'', ''d'', ''e'']"]
  obtain bs where "url_blocks_loop 2 [''a'', ''b'', ''c'', ''d'', ''e''] [] = Inr bs"
    and "\<forall>k. map_of bs k =
                  (let block = map (\<lambda>i. [''a'', ''b'', ''c'', ''d'', ''e''] ! i)
                                 (filter (\<lambda>i. int (Suc i) mod 2 = k)
                                    (rev [0..<length [''a'', ''b'', ''c'', ''d'', ''e'']]))
                   in if block = [] then None else Some block)"
    by blast
  with ex_blocks have "map_of [(1 :: int, [''e'', ''c'', ''a'']), (0, [''d'', ''b''])] 1 =
     (let block = map (\<lambda>i. [''a'', ''b'', ''c'', ''d'', ''e''] ! i)
                                 (filter (\<lambda>i. int (Suc i) mod 2 = 1)
                                    (rev [0..<length [''a'', ''b'', ''c'', ''d'', ''e'']]))
                   in if block = [] then None else Some block)"
    by auto
  moreover have "map (\<lambda>i. [''a'', ''b'', ''c'', ''d'', ''e''] ! i)
            (filter (\<lambda>i. int (Suc i) mod 2 = 1) (rev [0..<5])) = [''e'', ''c'', ''a'']"
    by code_simp
  ultimately show ?thesis using ex_blocks by (simp add: Let_def)
qed

section \<open>The schedule of a batch\<close>

lemma split_dot_not_Nil: "split_dot s \<noteq> []"
  by (induction s) (auto split: list.splits)

lemma length_split_dot: "length (split_dot s) = Suc (count_list s (CHR ''.''))"
proof (induction s)
  case Nil
  show ?case by simp
next
  case (Cons c s)
  with split_dot_not_Nil [of s] show ?case by (auto split: list.splits)
qed

lemma country_domain_has_dot: "country_domain host \<Longrightarrow> CHR ''.'' \<in> set host"
proof -
  assume "country_domain host"
  then have "(3 \<le> length host \<and> host ! (length host - 3) = CHR ''.'') \<or>
             (4 \<le> length host \<and> host ! (length host - 4) = CHR ''.'')"
    by (auto simp add: country_domain_def Let_def)
  then show ?thesis
  proof
    assume a: "3 \<le> length host \<and> host ! (length host - 3) = CHR ''.''"
    then have "length host - 3 < length host" by auto
    then have "host ! (length host - 3) \<in> set host" by (rule nth_mem)
    with a show ?thesis by simp
  next
    assume a: "4 \<le> length host \<and> host ! (length host - 4) = CHR ''.''"
    then have "length host - 4 < length host" by auto
    then have "host ! (length host - 4) \<in> set host" by (rule nth_mem)
    with a show ?thesis by simp
  qed
qed

lemma country_domain_two_parts: "country_domain host \<Longrightarrow> 2 \<le> length (split_dot host)"
proof -
  assume "country_domain host"
  then have "count_list host (CHR ''.'') \<noteq> 0"
    using country_domain_has_dot [of host] by (simp add: count_list_0_iff)
  then show ?thesis by (simp add: length_split_dot)
qed

lemma py_nth_Inr:
  "- int (length xs) \<le> i \<Longrightarrow> i < int (length xs) \<Longrightarrow>
   py_nth xs i = Inr (xs ! nat (if 0 \<le> i then i else int (length xs) + i))"
  by (simp add: py_nth_def)

lemma get_url_domain_returns: "\<exists>d. get_url_domain e u = Inr d"
proof (cases "is_http_url e u")
  case False
  then show ?thesis by (simp add: get_url_domain_def)
next
  case True
  let ?parts = "split_dot (get_url_host e u)"
  let ?n = "int (length ?parts) - 1"
  have one: "1 \<le> length ?parts"
    using split_dot_not_Nil [of "get_url_host e u"] by (cases ?parts) simp_all
  show ?thesis
  proof (cases "country_domain (get_url_host e u)")
    case c: True
    then have two: "2 \<le> length ?parts" by (rule country_domain_two_parts)
    from two have ra: "- int (length ?parts) \<le> ?n - 2" "?n - 2 < int (length ?parts)"
      and rb: "- int (length ?parts) \<le> ?n - 1" "?n - 1 < int (length ?parts)"
      and rc: "- int (length ?parts) \<le> 0" "0 < int (length ?parts)"
      by auto
    from True c py_nth_Inr [OF ra] py_nth_Inr [OF rb] py_nth_Inr [OF rc] show ?thesis
      by (simp add: get_url_domain_def Let_def)
  next
    case nc: False
    from one have ra: "- int (length ?parts) \<le> ?n - 1" "?n - 1 < int (length ?parts)"
      and rb: "- int (length ?parts) \<le> ?n" "?n < int (length ?parts)"
      by auto
    from True nc py_nth_Inr [OF ra] py_nth_Inr [OF rb] show ?thesis
      by (simp add: get_url_domain_def Let_def)
  qed
qed

lemma domain_urls_loop_returns: "\<exists>d. domain_urls_loop e us acc = Inr d"
proof (induction us arbitrary: acc)
  case Nil
  show ?case by simp
next
  case (Cons u us)
  obtain d where "get_url_domain e u = Inr d" using get_url_domain_returns by blast
  with Cons show ?case by simp
qed


lemma domain_urls_loop_no_empty:
  "domain_urls_loop e us acc = Inr d \<Longrightarrow> [] \<notin> snd ` set acc \<Longrightarrow> [] \<notin> snd ` set d"
proof (induction us arbitrary: acc)
  case Nil
  then show ?case by simp
next
  case (Cons u us)
  then show ?case by (auto simp add: dict_append_no_empty_list split: sum.splits)
qed

lemma domain_urls_loop_distinct:
  "domain_urls_loop e us acc = Inr d \<Longrightarrow> distinct (map fst acc) \<Longrightarrow> distinct (map fst d)"
proof (induction us arbitrary: acc)
  case Nil
  then show ?case by simp
next
  case (Cons u us)
  then show ?case by (auto simp add: distinct_dict_append split: sum.splits)
qed

lemma domain_urls_loop_bucket:
  "domain_urls_loop e us acc = Inr d \<Longrightarrow>
   map_of d k =
     (let bucket = filter (\<lambda>u. get_url_domain e u = Inr k) us
      in case map_of acc k of
           None \<Rightarrow> (if bucket = [] then None else Some bucket)
         | Some vs \<Rightarrow> Some (vs @ bucket))"
proof (induction us arbitrary: acc)
  case Nil
  then show ?case by (simp split: option.splits)
next
  case (Cons u us)
  then show ?case
    by (auto simp add: map_of_dict_append Let_def split: sum.splits option.splits)
qed

lemma schedule_domain_urls: "map sched_url (schedule_domain p us t) = us"
  by (induction us arbitrary: t) simp_all

lemma length_schedule_domain: "length (schedule_domain p us t) = length us"
  by (induction us arbitrary: t) simp_all

lemma schedule_domain_first: "us \<noteq> [] \<Longrightarrow> sched_time (schedule_domain p us t ! 0) = t"
  by (cases us) simp_all

lemma schedule_domain_step:
  "Suc i < length us \<Longrightarrow>
   sched_time (schedule_domain p us t ! Suc i) =
     (if sched_time (schedule_domain p us t ! i) mod 5 = 0
      then sched_time (schedule_domain p us t ! i) + p
      else sched_time (schedule_domain p us t ! i))"
proof (induction us arbitrary: t i)
  case Nil
  then show ?case by simp
next
  case (Cons u us)
  show ?case
  proof (cases i)
    case 0
    with Cons.prems show ?thesis by (cases us) simp_all
  next
    case (Suc j)
    with Cons.prems have "Suc j < length us" by simp
    from Cons.IH [OF this] Suc show ?thesis by simp
  qed
qed

lemma schedule_domain_closed:
  "i < length us \<Longrightarrow>
   sched_time (schedule_domain p us 0 ! i) =
     (if p mod 5 = 0 then int i * p else if i = 0 then 0 else p)"
proof (induction i)
  case 0
  then show ?case by (simp add: schedule_domain_first)
next
  case (Suc i)
  then have i: "i < length us" and IH: "sched_time (schedule_domain p us 0 ! i) =
     (if p mod 5 = 0 then int i * p else if i = 0 then 0 else p)" by simp_all
  show ?case
  proof (cases "p mod 5 = 0")
    case True
    then have "(int i * p) mod 5 = 0" by (simp add: mod_mult_right_eq [symmetric, of "int i" p 5] del: mod_mult_right_eq)
    with True IH Suc.prems show ?thesis
      by (simp add: schedule_domain_step algebra_simps)
  next
    case False
    with IH Suc.prems show ?thesis
      by (cases i) (simp_all add: schedule_domain_step)
  qed
qed


lemma ex_sched:
  "get_scheduled_urls example_env
       [''http://a.example/1'', ''http://b.example/1'', ''http://a.example/2'',
        ''http://a.example/3''] 5 =
     Inr [\<lparr>sched_url = ''http://a.example/1'', sched_time = 0\<rparr>,
          \<lparr>sched_url = ''http://b.example/1'', sched_time = 0\<rparr>,
          \<lparr>sched_url = ''http://a.example/2'', sched_time = 5\<rparr>,
          \<lparr>sched_url = ''http://a.example/3'', sched_time = 10\<rparr>]"
  by code_simp

text \<open>
  C1, as the code has it. \<^verbatim>\<open>__get_scheduled_urls\<close> returns the schedules of the buckets,
  sorted by offset; the bucket of a domain holds the URLs of that domain in the order of
  arrival. In every bucket the first URL receives offset 0, and the URL after one with
  offset \<open>t\<close> receives \<open>t\<close> plus the per-domain timeout when \<open>t\<close> itself is divisible by
  5, and \<open>t\<close> otherwise: the test is on the running offset, not on the index. So with a
  timeout divisible by 5 the URL at index \<open>i\<close> receives \<open>i\<close> times the timeout, and with
  any other timeout every URL after the first receives the timeout.
\<close>

theorem scheduled_offsets_follow_running_offset:
  "\<exists>domain_urls.
     domain_urls_loop e urls0 [] = Inr domain_urls \<and>
     get_scheduled_urls e urls0 per_domain_timeout =
       Inr (sort_key sched_time
              (concat (map (\<lambda>(domain0, urls_in_domain).
                              schedule_domain per_domain_timeout urls_in_domain 0)
                         domain_urls))) \<and>
     distinct (map fst domain_urls) \<and>
     (\<forall>domain0. map_of domain_urls domain0 =
        (let bucket = filter (\<lambda>u. get_url_domain e u = Inr domain0) urls0
         in if bucket = [] then None else Some bucket)) \<and>
     (\<forall>(domain0, urls_in_domain) \<in> set domain_urls.
        urls_in_domain \<noteq> [] \<and>
        map sched_url (schedule_domain per_domain_timeout urls_in_domain 0) = urls_in_domain \<and>
        sched_time (schedule_domain per_domain_timeout urls_in_domain 0 ! 0) = 0 \<and>
        (\<forall>i. Suc i < length urls_in_domain \<longrightarrow>
           sched_time (schedule_domain per_domain_timeout urls_in_domain 0 ! Suc i) =
             (if sched_time (schedule_domain per_domain_timeout urls_in_domain 0 ! i) mod 5 = 0
              then sched_time (schedule_domain per_domain_timeout urls_in_domain 0 ! i) +
                   per_domain_timeout
              else sched_time (schedule_domain per_domain_timeout urls_in_domain 0 ! i))) \<and>
        (\<forall>i < length urls_in_domain.
           sched_time (schedule_domain per_domain_timeout urls_in_domain 0 ! i) =
             (if per_domain_timeout mod 5 = 0 then int i * per_domain_timeout
              else if i = 0 then 0 else per_domain_timeout)))"
proof -
  obtain d where d: "domain_urls_loop e urls0 [] = Inr d"
    using domain_urls_loop_returns by blast
  have sched: "get_scheduled_urls e urls0 per_domain_timeout =
       Inr (sort_key sched_time
              (concat (map (\<lambda>(domain0, urls_in_domain).
                              schedule_domain per_domain_timeout urls_in_domain 0) d)))"
    using d by (simp add: get_scheduled_urls_def)
  have dist: "distinct (map fst d)"
    using domain_urls_loop_distinct [OF d] by simp
  have bucket: "map_of d k =
        (let bucket = filter (\<lambda>u. get_url_domain e u = Inr k) urls0
         in if bucket = [] then None else Some bucket)" for k
    using domain_urls_loop_bucket [OF d, of k] by simp
  have ne: "[] \<notin> snd ` set d"
    using domain_urls_loop_no_empty [OF d] by simp
  have each: "us \<noteq> [] \<and>
        map sched_url (schedule_domain per_domain_timeout us 0) = us \<and>
        sched_time (schedule_domain per_domain_timeout us 0 ! 0) = 0 \<and>
        (\<forall>i. Suc i < length us \<longrightarrow>
           sched_time (schedule_domain per_domain_timeout us 0 ! Suc i) =
             (if sched_time (schedule_domain per_domain_timeout us 0 ! i) mod 5 = 0
              then sched_time (schedule_domain per_domain_timeout us 0 ! i) + per_domain_timeout
              else sched_time (schedule_domain per_domain_timeout us 0 ! i))) \<and>
        (\<forall>i < length us.
           sched_time (schedule_domain per_domain_timeout us 0 ! i) =
             (if per_domain_timeout mod 5 = 0 then int i * per_domain_timeout
              else if i = 0 then 0 else per_domain_timeout))"
    if "(k, us) \<in> set d" for k us
  proof -
    from that ne have "us \<noteq> []" by force
    then show ?thesis
      using schedule_domain_urls [of per_domain_timeout us 0]
        schedule_domain_first [of us per_domain_timeout 0]
        schedule_domain_step [of _ us per_domain_timeout 0]
        schedule_domain_closed [of _ us per_domain_timeout]
      by blast
  qed
  from d sched dist bucket each show ?thesis by blast
qed

theorem scheduled_offsets_follow_running_offset_witness:
  "get_scheduled_urls example_env
       [''http://a.example/1'', ''http://b.example/1'', ''http://a.example/2'',
        ''http://a.example/3''] 5 =
     Inr [\<lparr>sched_url = ''http://a.example/1'', sched_time = 0\<rparr>,
          \<lparr>sched_url = ''http://b.example/1'', sched_time = 0\<rparr>,
          \<lparr>sched_url = ''http://a.example/2'', sched_time = 5\<rparr>,
          \<lparr>sched_url = ''http://a.example/3'', sched_time = 10\<rparr>] \<and>
   (\<exists>domain_urls.
      domain_urls_loop example_env
        [''http://a.example/1'', ''http://b.example/1'', ''http://a.example/2'',
         ''http://a.example/3''] [] = Inr domain_urls \<and>
      map_of domain_urls ''a.example'' =
        Some [''http://a.example/1'', ''http://a.example/2'', ''http://a.example/3''])"
proof -
  have dom: "filter (\<lambda>u. get_url_domain example_env u = Inr ''a.example'')
               [''http://a.example/1'', ''http://b.example/1'', ''http://a.example/2'',
                ''http://a.example/3''] =
             [''http://a.example/1'', ''http://a.example/2'', ''http://a.example/3'']"
    by code_simp
  from scheduled_offsets_follow_running_offset [of example_env
      "[''http://a.example/1'', ''http://b.example/1'', ''http://a.example/2'',
        ''http://a.example/3'']" 5]
  obtain d where "domain_urls_loop example_env
        [''http://a.example/1'', ''http://b.example/1'', ''http://a.example/2'',
         ''http://a.example/3''] [] = Inr d"
    and "\<forall>domain0. map_of d domain0 =
        (let bucket = filter (\<lambda>u. get_url_domain example_env u = Inr domain0)
           [''http://a.example/1'', ''http://b.example/1'', ''http://a.example/2'',
            ''http://a.example/3'']
         in if bucket = [] then None else Some bucket)"
    by blast
  with dom ex_sched show ?thesis by (auto simp add: Let_def)
qed

text \<open>
  C1 as stated fails: with a timeout of 5 the third URL of a bucket, at index 2, receives
  offset 10, where the schedule by index lets it inherit offset 5.
\<close>

theorem scheduled_offsets_by_index_counterexample:
  "get_scheduled_urls example_env
       [''http://a.example/1'', ''http://a.example/2'', ''http://a.example/3''] 5 =
     Inr [\<lparr>sched_url = ''http://a.example/1'', sched_time = 0\<rparr>,
          \<lparr>sched_url = ''http://a.example/2'', sched_time = 5\<rparr>,
          \<lparr>sched_url = ''http://a.example/3'', sched_time = 10\<rparr>] \<and>
   schedule_domain_by_index 5
       [''http://a.example/1'', ''http://a.example/2'', ''http://a.example/3''] 0 0 =
     [\<lparr>sched_url = ''http://a.example/1'', sched_time = 0\<rparr>,
      \<lparr>sched_url = ''http://a.example/2'', sched_time = 5\<rparr>,
      \<lparr>sched_url = ''http://a.example/3'', sched_time = 5\<rparr>] \<and>
   schedule_domain 5
       [''http://a.example/1'', ''http://a.example/2'', ''http://a.example/3''] 0 \<noteq>
   schedule_domain_by_index 5
       [''http://a.example/1'', ''http://a.example/2'', ''http://a.example/3''] 0 0"
  by code_simp

section \<open>One response for each URL of a batch\<close>







section \<open>Exhausted redirects\<close>

text \<open>
  Whatever the chain is, the loop returns nothing or the response right before its
  argument: it has no way to reach an earlier hop.
\<close>

lemma redirects_exhausted_loop_shallow:
  "redirects_exhausted_loop n response0 urls = Inr (Some r) \<Longrightarrow> previous response0 = Some r"
  by (induction n response0 urls rule: redirects_exhausted_loop.induct)
    (auto split: option.splits if_splits)

lemma inner_redirects_exhausted_shallow:
  "inner_redirects_exhausted ua response0 = Inr (Some r) \<Longrightarrow> previous response0 = Some r"
  by (auto simp add: inner_redirects_exhausted_def redirects_exhausted_loop_shallow
      split: option.splits)

text \<open>
  C2, where the code departs from it. The chain is \<^verbatim>\<open>http://next.example/\<close>, before it
  \<^verbatim>\<open>http://pay.example/?u=http%3A//a.example/\<close>, before it \<^verbatim>\<open>http://a.example/\<close>. The
  encoded URL of the first hop is embedded in the URL of the second, and the walk over the
  chain returns the first hop. \<^verbatim>\<open>__inner_redirects_exhausted\<close> reads
  \<^verbatim>\<open>response_.previous()\<close> of the same response in every round and returns \<^verbatim>\<open>None\<close>, so
  that \<^verbatim>\<open>get_follow_http_html_redirects\<close>, with one redirect allowed, returns the response
  of the second hop.
\<close>

theorem redirects_exhausted_never_walks:
  "search_escaped_ignorecase (quote ''http://a.example/'')
     ''http://pay.example/?u=http%3A//a.example/'' \<and>
   paywall_unwrap_walk 2
     (Response 200 ''OK'' [] ''done'' False (Request ''GET'' ''http://next.example/'')
        (Some (Response 200 ''OK'' [] ''refresh'' False
           (Request ''GET'' ''http://pay.example/?u=http%3A//a.example/'')
           (Some (Response 302 ''Found'' [] [] False (Request ''GET'' ''http://a.example/'')
              None))))) [] =
     Inr (Some (Response 302 ''Found'' [] [] False (Request ''GET'' ''http://a.example/'') None)) \<and>
   inner_redirects_exhausted (UserAgent\<lparr>session_max_redirects := Some 1\<rparr>)
     (Response 200 ''OK'' [] ''done'' False (Request ''GET'' ''http://next.example/'')
        (Some (Response 200 ''OK'' [] ''refresh'' False
           (Request ''GET'' ''http://pay.example/?u=http%3A//a.example/'')
           (Some (Response 302 ''Found'' [] [] False (Request ''GET'' ''http://a.example/'')
              None))))) = Inr None \<and>
   fst (get_follow_http_html_redirects (UserAgent\<lparr>session_max_redirects := Some 1\<rparr>)
          paywall_env example_config (Some ''http://a.example/'') example_world) =
     Inr (Response 200 ''OK'' [] ''refresh'' False
            (Request ''GET'' ''http://pay.example/?u=http%3A//a.example/'')
            (Some (Response 302 ''Found'' [] [] False (Request ''GET'' ''http://a.example/'') None)))"
  by code_simp

end
